theory Spec2Isabelle
  imports Main
begin

section \<open>String primitives of the host language\<close>

text \<open>
  The editor component works on JavaScript strings.  A string is modelled as a list of
  characters, one character for one code unit, and each library method the component calls
  is written out as a function.  The character type has the code units below 256 only.
\<close>

definition startsWith :: "string \<Rightarrow> string \<Rightarrow> bool" where
  "startsWith s p = (take (length p) s = p)"

definition endsWith :: "string \<Rightarrow> string \<Rightarrow> bool" where
  "endsWith s p = (length p \<le> length s \<and> drop (length s - length p) s = p)"

text \<open>\<open>s.slice(b, e)\<close>: a negative index counts from the end, both are clamped.\<close>

definition slice :: "string \<Rightarrow> int \<Rightarrow> int \<Rightarrow> string" where
  "slice s b e =
     (let n = int (length s);
          from = (if b < 0 then max (n + b) 0 else min b n);
          to = (if e < 0 then max (n + e) 0 else min e n)
      in take (nat (to - from)) (drop (nat from) s))"

text \<open>A string is truthy when it is not empty; \<open>a || b\<close> on strings.\<close>

definition js_or :: "string \<Rightarrow> string \<Rightarrow> string" where
  "js_or a b = (if a = [] then b else a)"

definition newline :: char where
  "newline = CHR 0x0A"

text \<open>\<open>s.split('\n')\<close> and \<open>lines.join('\n')\<close>.\<close>

fun split_acc :: "string \<Rightarrow> string \<Rightarrow> string list" where
  "split_acc cur [] = [cur]"
| "split_acc cur (c # cs) =
     (if c = newline then cur # split_acc [] cs else split_acc (cur @ [c]) cs)"

definition split :: "string \<Rightarrow> string list" where
  "split s = split_acc [] s"

fun join :: "string list \<Rightarrow> string" where
  "join [] = []"
| "join [l] = l"
| "join (l # m # ls) = l @ newline # join (m # ls)"

text \<open>\<open>'#'.repeat(n)\<close>.\<close>

definition repeat :: "char \<Rightarrow> nat \<Rightarrow> string" where
  "repeat c n = replicate n c"

text \<open>A number inside a template literal: its decimal digits.\<close>

definition digit_char :: "nat \<Rightarrow> char" where
  "digit_char d = ''0123456789'' ! d"

fun show_nat :: "nat \<Rightarrow> string" where
  "show_nat n = (if n < 10 then [digit_char n] else show_nat (n div 10) @ [digit_char (n mod 10)])"

declare show_nat.simps [simp del]

section \<open>Regular expressions\<close>

text \<open>
  The patterns of the component are sequences of single characters, character classes under
  a greedy or lazy quantifier, one capture group and the line-start anchor.  The matcher
  below is the backtracking matcher of the language restricted to these forms.
\<close>

datatype cls = Lit char | Dot | Space | Digit | OneOf "char list"

definition lineTerminator :: "char \<Rightarrow> bool" where
  "lineTerminator c = (c = CHR 0x0A \<or> c = CHR 0x0D)"

fun cls_ok :: "cls \<Rightarrow> char \<Rightarrow> bool" where
  "cls_ok (Lit a) c = (c = a)"
| "cls_ok Dot c = (\<not> lineTerminator c)"
| "cls_ok Space c = (c \<in> set [CHR 0x09, CHR 0x0A, CHR 0x0B, CHR 0x0C, CHR 0x0D, CHR 0x20, CHR 0xA0])"
| "cls_ok Digit c = (c \<in> set ''0123456789'')"
| "cls_ok (OneOf cs) c = (c \<in> set cs)"

datatype item =
    Bol
  | One cls
  | Lazy cls nat "nat option"
  | Greedy cls nat "nat option"
  | Open
  | Close

text \<open>
  \<open>rmatch ml re bol s k gs g\<close> matches \<open>re\<close> at the head of \<open>s\<close>.  \<open>ml\<close> is the
  \<open>m\<close> flag, \<open>bol\<close> says whether the anchor holds here, \<open>k\<close> counts the characters
  consumed so far, \<open>gs\<close> is where the group opened and \<open>g\<close> the span of the group once
  closed.  The result is the length of the match and the span of the group.
\<close>

fun rmatch :: "bool \<Rightarrow> item list \<Rightarrow> bool \<Rightarrow> string \<Rightarrow> nat \<Rightarrow> nat \<Rightarrow> (nat \<times> nat) option
    \<Rightarrow> (nat \<times> (nat \<times> nat) option) option" where
  "rmatch ml [] bol s k gs g = Some (k, g)"
| "rmatch ml (Bol # re) bol s k gs g = (if bol then rmatch ml re bol s k gs g else None)"
| "rmatch ml (Open # re) bol s k gs g = rmatch ml re bol s k k g"
| "rmatch ml (Close # re) bol s k gs g = rmatch ml re bol s k gs (Some (gs, k))"
| "rmatch ml (One c # re) bol [] k gs g = None"
| "rmatch ml (One c # re) bol (x # xs) k gs g =
     (if cls_ok c x then rmatch ml re (ml \<and> lineTerminator x) xs (Suc k) gs g else None)"
| "rmatch ml (Lazy c lo hi # re) bol [] k gs g =
     (if lo = 0 then rmatch ml re bol [] k gs g else None)"
| "rmatch ml (Lazy c lo hi # re) bol (x # xs) k gs g =
     (let more = (if hi \<noteq> Some 0 \<and> cls_ok c x
                  then rmatch ml (Lazy c (lo - 1) (map_option (\<lambda>h. h - 1) hi) # re)
                         (ml \<and> lineTerminator x) xs (Suc k) gs g
                  else None)
      in if lo = 0
         then (case rmatch ml re bol (x # xs) k gs g of Some r \<Rightarrow> Some r | None \<Rightarrow> more)
         else more)"
| "rmatch ml (Greedy c lo hi # re) bol [] k gs g =
     (if lo = 0 then rmatch ml re bol [] k gs g else None)"
| "rmatch ml (Greedy c lo hi # re) bol (x # xs) k gs g =
     (let more = (if hi \<noteq> Some 0 \<and> cls_ok c x
                  then rmatch ml (Greedy c (lo - 1) (map_option (\<lambda>h. h - 1) hi) # re)
                         (ml \<and> lineTerminator x) xs (Suc k) gs g
                  else None)
      in case more of
           Some r \<Rightarrow> Some r
         | None \<Rightarrow> if lo = 0 then rmatch ml re bol (x # xs) k gs g else None)"

definition exec :: "bool \<Rightarrow> item list \<Rightarrow> bool \<Rightarrow> string \<Rightarrow> (nat \<times> (nat \<times> nat) option) option" where
  "exec ml re bol s = rmatch ml re bol s 0 0 None"

text \<open>The text of group 1, empty when the group took no part in the match.\<close>

definition grp :: "string \<Rightarrow> (nat \<times> nat) option \<Rightarrow> string" where
  "grp s g = (case g of None \<Rightarrow> [] | Some (a, b) \<Rightarrow> take (b - a) (drop a s))"

datatype replacement = Group1 | Text string

fun expand :: "replacement \<Rightarrow> string \<Rightarrow> string" where
  "expand Group1 g = g"
| "expand (Text t) g = t"

text \<open>\<open>s.match(re)\<close> without the \<open>g\<close> flag: the first match from the left.\<close>

fun match_first :: "bool \<Rightarrow> item list \<Rightarrow> bool \<Rightarrow> string \<Rightarrow> (nat \<times> string) option" where
  "match_first ml re bol [] =
     (case exec ml re bol [] of Some (n, g) \<Rightarrow> Some (n, grp [] g) | None \<Rightarrow> None)"
| "match_first ml re bol (x # xs) =
     (case exec ml re bol (x # xs) of
        Some (n, g) \<Rightarrow> Some (n, grp (x # xs) g)
      | None \<Rightarrow> match_first ml re (ml \<and> lineTerminator x) xs)"

text \<open>\<open>s.replace(re, rep)\<close> without the \<open>g\<close> flag: only the first match is replaced.\<close>

fun replace_first :: "bool \<Rightarrow> item list \<Rightarrow> replacement \<Rightarrow> bool \<Rightarrow> string \<Rightarrow> string" where
  "replace_first ml re rep bol [] =
     (case exec ml re bol [] of Some (n, g) \<Rightarrow> expand rep (grp [] g) | None \<Rightarrow> [])"
| "replace_first ml re rep bol (x # xs) =
     (case exec ml re bol (x # xs) of
        Some (n, g) \<Rightarrow> expand rep (grp (x # xs) g) @ drop n (x # xs)
      | None \<Rightarrow> x # replace_first ml re rep (ml \<and> lineTerminator x) xs)"

text \<open>
  \<open>s.replace(re, rep)\<close> with the \<open>g\<close> flag: every match from the left, the search
  resuming where the last match ended, one character further after an empty match.
\<close>

fun replace_all :: "bool \<Rightarrow> item list \<Rightarrow> replacement \<Rightarrow> bool \<Rightarrow> string \<Rightarrow> string" where
  "replace_all ml re rep bol [] =
     (case exec ml re bol [] of Some (n, g) \<Rightarrow> expand rep (grp [] g) | None \<Rightarrow> [])"
| "replace_all ml re rep bol (x # xs) =
     (case exec ml re bol (x # xs) of
        None \<Rightarrow> x # replace_all ml re rep (ml \<and> lineTerminator x) xs
      | Some (n, g) \<Rightarrow>
          expand rep (grp (x # xs) g) @
          (if n = 0 then x # replace_all ml re rep (ml \<and> lineTerminator x) xs
           else replace_all ml re rep (ml \<and> lineTerminator ((x # xs) ! (n - 1)))
                  (drop (n - 1) xs)))"

section \<open>The editor widget as the component sees it\<close>

record range =
  startLineNumber :: nat
  startColumn :: nat
  endLineNumber :: nat
  endColumn :: nat

text \<open>\<open>new Range(a, b, c, d)\<close> orders its two end points.\<close>

definition Range :: "nat \<Rightarrow> nat \<Rightarrow> nat \<Rightarrow> nat \<Rightarrow> range" where
  "Range sl sc el ec =
     (if el < sl \<or> (sl = el \<and> ec < sc)
      then \<lparr>startLineNumber = el, startColumn = ec, endLineNumber = sl, endColumn = sc\<rparr>
      else \<lparr>startLineNumber = sl, startColumn = sc, endLineNumber = el, endColumn = ec\<rparr>)"

text \<open>
  A text model is its text.  The widget ends a line at \<open>\r\n\<close>, at \<open>\r\<close> and at
  \<open>\n\<close>, and the end of line is no part of the line.  Lines and columns count from 1;
  a position outside the text is moved to the nearest one inside, as the widget does
  when it validates a range.
\<close>

fun model_lines_acc :: "string \<Rightarrow> string \<Rightarrow> string list" where
  "model_lines_acc cur [] = [cur]"
| "model_lines_acc cur [c] = (if lineTerminator c then [cur, []] else [cur @ [c]])"
| "model_lines_acc cur (c # d # cs) =
     (if c = CHR 0x0D \<and> d = CHR 0x0A then cur # model_lines_acc [] cs
      else if lineTerminator c then cur # model_lines_acc [] (d # cs)
      else model_lines_acc (cur @ [c]) (d # cs))"

definition model_lines :: "string \<Rightarrow> string list" where
  "model_lines model = model_lines_acc [] model"

text \<open>
  \<open>ends_line c cs\<close>: the character \<open>c\<close>, followed by \<open>cs\<close>, is the last of an end of
  line.
\<close>

definition ends_line :: "char \<Rightarrow> string \<Rightarrow> bool" where
  "ends_line c cs =
     (if c = CHR 0x0D
      then (case cs of [] \<Rightarrow> True | d # ds \<Rightarrow> (if d = CHR 0x0A then False else True))
      else c = CHR 0x0A)"

fun offsetAt :: "string \<Rightarrow> nat \<Rightarrow> nat \<Rightarrow> nat" where
  "offsetAt [] ln col = 0"
| "offsetAt (c # cs) ln col =
     (if ln \<le> 1
      then (if ln = 0 \<or> col \<le> 1 \<or> lineTerminator c then 0
            else Suc (offsetAt cs ln (col - 1)))
      else Suc (offsetAt cs (if ends_line c cs then ln - 1 else ln) col))"

definition getValueInRange :: "string \<Rightarrow> range \<Rightarrow> string" where
  "getValueInRange model r =
     (let b = offsetAt model (startLineNumber r) (startColumn r);
          e = offsetAt model (endLineNumber r) (endColumn r)
      in take (e - b) (drop b model))"

text \<open>\<open>getLineContent\<close> throws for a line the model does not have: \<open>None\<close>.\<close>

definition getLineContent :: "string \<Rightarrow> nat \<Rightarrow> string option" where
  "getLineContent model n =
     (if 1 \<le> n \<and> n \<le> length (model_lines model)
      then Some (model_lines model ! (n - 1))
      else None)"

definition getLineLength :: "string \<Rightarrow> nat \<Rightarrow> nat option" where
  "getLineLength model n = map_option length (getLineContent model n)"

text \<open>
  What the component reads from the widget: the attached model and the selection, each of
  which the widget may not have.
\<close>

record editor =
  getModel :: "string option"
  getSelection :: "range option"

text \<open>What the component asks the widget to do.\<close>

datatype call =
    ExecuteEdits "string option" range string
  | SetSelection range
  | SetPosition nat nat
  | Focus
  | Trigger string

text \<open>
  The translation function \<open>t\<close> of the page, and the three literal fallbacks of the source
  that are written in Chinese characters: they lie outside the character type used here
  and are kept as parameters.
\<close>

record i18n =
  t :: "string \<Rightarrow> string"
  link_fallback :: string
  header_fallback :: string
  content_fallback :: string

text \<open>A page without translations, where \<open>t\<close> gives the key back.\<close>

definition untranslated :: i18n where
  "untranslated =
     \<lparr>t = (\<lambda>key. key), link_fallback = [], header_fallback = [], content_fallback = []\<rparr>"

section \<open>The formatting actions\<close>

subsection \<open>The replacement text of each action\<close>

definition bold_text :: "string \<Rightarrow> string" where
  "bold_text selectedText =
     (if startsWith selectedText ''**'' \<and> endsWith selectedText ''**''
      then slice selectedText 2 (- 2)
      else ''**'' @ selectedText @ ''**'')"

definition italic_text :: "string \<Rightarrow> string" where
  "italic_text selectedText =
     (if startsWith selectedText ''*'' \<and> endsWith selectedText ''*'' \<and> length selectedText > 1
      then slice selectedText 1 (- 1)
      else ''*'' @ selectedText @ ''*'')"

definition inline_code_text :: "string \<Rightarrow> string" where
  "inline_code_text selectedText =
     (if startsWith selectedText ''`'' \<and> endsWith selectedText ''`'' \<and> length selectedText > 1
      then slice selectedText 1 (- 1)
      else ''`'' @ selectedText @ ''`'')"

definition strikethrough_text :: "string \<Rightarrow> string" where
  "strikethrough_text selectedText =
     (if startsWith selectedText ''~~'' \<and> endsWith selectedText ''~~''
      then slice selectedText 2 (- 2)
      else ''~~'' @ selectedText @ ''~~'')"

definition code_block_text :: "i18n \<Rightarrow> string \<Rightarrow> string" where
  "code_block_text tr selectedText =
     (if selectedText \<noteq> []
      then ''```'' @ [newline] @ selectedText @ [newline] @ ''```''
      else ''```'' @ [newline] @ js_or (t tr ''code.language'') ''language'' @ [newline] @ ''```'')"

definition blockquote_text :: "string \<Rightarrow> string" where
  "blockquote_text selectedText =
     (if selectedText \<noteq> []
      then join (map (\<lambda>line. ''> '' @ line) (split selectedText))
      else ''> '')"

definition unordered_list_text :: "string \<Rightarrow> string" where
  "unordered_list_text selectedText =
     (if selectedText \<noteq> []
      then join (map (\<lambda>line. ''- '' @ line) (split selectedText))
      else ''- '')"

text \<open>\<open>lines.map((line, index) => ...)\<close>: the callback receives the index as well.\<close>

definition map_index :: "('a \<Rightarrow> nat \<Rightarrow> 'b) \<Rightarrow> 'a list \<Rightarrow> 'b list" where
  "map_index f xs = map (\<lambda>(line, index). f line index) (zip xs [0 ..< length xs])"

definition ordered_list_text :: "string \<Rightarrow> string" where
  "ordered_list_text selectedText =
     (if selectedText \<noteq> []
      then join (map_index (\<lambda>line index. show_nat (index + 1) @ ''. '' @ line) (split selectedText))
      else ''1. '')"

definition task_list_text :: "string \<Rightarrow> string" where
  "task_list_text selectedText =
     (if selectedText \<noteq> []
      then join (map (\<lambda>line. ''- [ ] '' @ line) (split selectedText))
      else ''- [ ] '')"

definition table_text :: "i18n \<Rightarrow> string" where
  "table_text tr =
     (let h = js_or (t tr ''table.header'') (header_fallback tr);
          c = js_or (t tr ''table.content'') (content_fallback tr)
      in ''| '' @ h @ '' 1 | '' @ h @ '' 2 | '' @ h @ '' 3 |'' @ [newline] @
         ''| --- | --- | --- |'' @ [newline] @
         ''| '' @ c @ '' 1 | '' @ c @ '' 2 | '' @ c @ '' 3 |'' @ [newline])"

text \<open>The nine substitutions of clear-format, in the order of the source.\<close>

definition re_bold :: "item list" where
  "re_bold = [One (Lit CHR ''*''), One (Lit CHR ''*''), Open, Lazy Dot 0 None, Close,
              One (Lit CHR ''*''), One (Lit CHR ''*'')]"

definition re_italic :: "item list" where
  "re_italic = [One (Lit CHR ''*''), Open, Lazy Dot 0 None, Close, One (Lit CHR ''*'')]"

definition re_strike :: "item list" where
  "re_strike = [One (Lit CHR ''~''), One (Lit CHR ''~''), Open, Lazy Dot 0 None, Close,
                One (Lit CHR ''~''), One (Lit CHR ''~'')]"

definition re_code :: "item list" where
  "re_code = [One (Lit CHR ''`''), Open, Lazy Dot 0 None, Close, One (Lit CHR ''`'')]"

definition re_link :: "item list" where
  "re_link = [One (Lit CHR ''[''), Open, Lazy Dot 0 None, Close, One (Lit CHR '']''),
              One (Lit CHR ''(''), Lazy Dot 0 None, One (Lit CHR '')'')]"

definition re_heading_mark :: "item list" where
  "re_heading_mark = [Bol, Greedy (Lit CHR ''#'') 1 None, Greedy Space 0 None]"

definition re_quote_mark :: "item list" where
  "re_quote_mark = [Bol, One (Lit CHR ''>''), Greedy Space 0 None]"

definition re_bullet_mark :: "item list" where
  "re_bullet_mark = [Bol, One (OneOf ''*-''), Greedy Space 0 None]"

definition re_number_mark :: "item list" where
  "re_number_mark = [Bol, Greedy Digit 1 None, One (Lit CHR ''.''), Greedy Space 0 None]"

definition clear_format_text :: "string \<Rightarrow> string" where
  "clear_format_text selectedText =
     replace_all True re_number_mark (Text []) True
      (replace_all True re_bullet_mark (Text []) True
        (replace_all True re_quote_mark (Text []) True
          (replace_all True re_heading_mark (Text []) True
            (replace_all False re_link Group1 True
              (replace_all False re_code Group1 True
                (replace_all False re_strike Group1 True
                  (replace_all False re_italic Group1 True
                    (replace_all False re_bold Group1 True selectedText))))))))"

definition re_indent :: "item list" where
  "re_indent = [Bol, Greedy (Lit CHR '' '') 1 (Some 4)]"

definition increase_indent_text :: "string \<Rightarrow> string" where
  "increase_indent_text selectedText = join (map (\<lambda>line. ''    '' @ line) (split selectedText))"

definition decrease_indent_text :: "string \<Rightarrow> string" where
  "decrease_indent_text selectedText =
     join (map (\<lambda>line. replace_first False re_indent (Text []) True line) (split selectedText))"

subsection \<open>Headings\<close>

definition re_heading :: "item list" where
  "re_heading = [Bol, Open, Greedy (Lit CHR ''#'') 1 (Some 6), Close, One Space]"

definition heading_text :: "nat \<Rightarrow> string \<Rightarrow> string \<Rightarrow> string" where
  "heading_text level line selectedText =
     (let hashes = repeat CHR ''#'' level
      in case match_first False re_heading True line of
           Some (n, g1) \<Rightarrow>
             if length g1 = level
             then replace_first False re_heading (Text []) True line
             else replace_first False re_heading (Text (hashes @ '' '')) True line
         | None \<Rightarrow>
             if selectedText \<noteq> [] then hashes @ '' '' @ selectedText else hashes @ '' '')"

text \<open>
  A call of \<open>getLineContent\<close> that throws leaves the handler before any request to the
  widget: the list of calls is empty.
\<close>

definition handleHeadingAction ::
    "editor option \<Rightarrow> nat \<Rightarrow> range \<Rightarrow> string \<Rightarrow> string \<Rightarrow> call list" where
  "handleHeadingAction editorRef level selection model selectedText =
     (case editorRef of
        None \<Rightarrow> []
      | Some ed \<Rightarrow>
          (case getLineContent model (startLineNumber selection) of
             None \<Rightarrow> []
           | Some line \<Rightarrow>
               (let newText = heading_text level line selectedText;
                    source = Some (''heading-'' @ show_nat level)
                in if selectedText = []
                   then (case getLineLength model (startLineNumber selection) of
                           None \<Rightarrow> []
                         | Some len \<Rightarrow>
                             [ExecuteEdits source
                                (Range (startLineNumber selection) 1
                                       (startLineNumber selection) (len + 1))
                                newText])
                   else [ExecuteEdits source selection newText])))"

subsection \<open>The dispatcher\<close>

definition link_calls :: "i18n \<Rightarrow> range \<Rightarrow> string \<Rightarrow> call list" where
  "link_calls tr selection selectedText =
     (if selectedText \<noteq> []
      then [ExecuteEdits (Some ''link'') selection (''['' @ selectedText @ ''](url)''),
            SetSelection (Range (startLineNumber selection)
                                (startColumn selection + length selectedText + 3)
                                (endLineNumber selection)
                                (startColumn selection + length selectedText + 6)),
            Focus]
      else (let placeholderText = js_or (t tr ''link.placeholder'') (link_fallback tr)
            in [ExecuteEdits (Some ''link'') selection (''['' @ placeholderText @ ''](url)''),
                SetSelection (Range (startLineNumber selection)
                                    (startColumn selection + 1)
                                    (startLineNumber selection)
                                    (startColumn selection + 1 + length placeholderText)),
                Focus]))"

definition code_block_calls :: "i18n \<Rightarrow> range \<Rightarrow> string \<Rightarrow> call list" where
  "code_block_calls tr selection selectedText =
     ExecuteEdits (Some ''code-block'') selection (code_block_text tr selectedText) #
     (if selectedText = []
      then [SetSelection (Range (startLineNumber selection + 1) 1
                                (startLineNumber selection + 1) 9),
            Focus]
      else [])"

definition horizontal_rule_calls :: "range \<Rightarrow> call list" where
  "horizontal_rule_calls selection =
     [ExecuteEdits (Some ''horizontal-rule'') selection ([newline] @ ''---'' @ [newline]),
      SetPosition (startLineNumber selection + 2) 1,
      Focus]"

definition increase_indent_calls :: "range \<Rightarrow> string \<Rightarrow> string \<Rightarrow> call list" where
  "increase_indent_calls selection model selectedText =
     (if selectedText \<noteq> []
      then [ExecuteEdits (Some ''increase-indent'') selection (increase_indent_text selectedText)]
      else (let lineNumber = startLineNumber selection
            in case getLineContent model lineNumber of
                 None \<Rightarrow> []
               | Some lineContent \<Rightarrow>
                   (case getLineLength model lineNumber of
                      None \<Rightarrow> []
                    | Some len \<Rightarrow>
                        [ExecuteEdits (Some ''increase-indent'')
                           (Range lineNumber 1 lineNumber (len + 1))
                           (''    '' @ lineContent)])))"

definition decrease_indent_calls :: "range \<Rightarrow> string \<Rightarrow> string \<Rightarrow> call list" where
  "decrease_indent_calls selection model selectedText =
     (if selectedText \<noteq> []
      then [ExecuteEdits (Some ''decrease-indent'') selection (decrease_indent_text selectedText)]
      else (let lineNumber = startLineNumber selection
            in case getLineContent model lineNumber of
                 None \<Rightarrow> []
               | Some lineContent \<Rightarrow>
                   (case getLineLength model lineNumber of
                      None \<Rightarrow> []
                    | Some len \<Rightarrow>
                        [ExecuteEdits (Some ''decrease-indent'')
                           (Range lineNumber 1 lineNumber (len + 1))
                           (replace_first False re_indent (Text []) True lineContent)])))"

text \<open>
  The \<open>switch\<close> of the source, case by case and in its order; an identifier that no case
  names falls through the \<open>switch\<close> and nothing is done.
\<close>

definition dispatch ::
    "i18n \<Rightarrow> editor option \<Rightarrow> range \<Rightarrow> string \<Rightarrow> string \<Rightarrow> string \<Rightarrow> call list" where
  "dispatch tr editorRef selection model selectedText actionType =
     (if actionType = ''bold'' then
        [ExecuteEdits (Some ''bold'') selection (bold_text selectedText)]
      else if actionType = ''italic'' then
        [ExecuteEdits (Some ''italic'') selection (italic_text selectedText)]
      else if actionType = ''link'' then
        link_calls tr selection selectedText
      else if actionType = ''inline-code'' then
        [ExecuteEdits (Some ''inline-code'') selection (inline_code_text selectedText)]
      else if actionType = ''code-block'' then
        code_block_calls tr selection selectedText
      else if actionType = ''blockquote'' then
        [ExecuteEdits (Some ''blockquote'') selection (blockquote_text selectedText)]
      else if actionType = ''unordered-list'' then
        [ExecuteEdits (Some ''unordered-list'') selection (unordered_list_text selectedText)]
      else if actionType = ''ordered-list'' then
        [ExecuteEdits (Some ''ordered-list'') selection (ordered_list_text selectedText)]
      else if actionType = ''heading-1'' then
        handleHeadingAction editorRef 1 selection model selectedText
      else if actionType = ''heading-2'' then
        handleHeadingAction editorRef 2 selection model selectedText
      else if actionType = ''heading-3'' then
        handleHeadingAction editorRef 3 selection model selectedText
      else if actionType = ''heading-4'' then
        handleHeadingAction editorRef 4 selection model selectedText
      else if actionType = ''horizontal-rule'' then
        horizontal_rule_calls selection
      else if actionType = ''strikethrough'' then
        [ExecuteEdits (Some ''strikethrough'') selection (strikethrough_text selectedText)]
      else if actionType = ''table'' then
        [ExecuteEdits (Some ''table'') selection (table_text tr)]
      else if actionType = ''task-list'' then
        [ExecuteEdits (Some ''task-list'') selection (task_list_text selectedText)]
      else if actionType = ''clear-format'' then
        [ExecuteEdits (Some ''clear-format'') selection (clear_format_text selectedText)]
      else if actionType = ''increase-indent'' then
        increase_indent_calls selection model selectedText
      else if actionType = ''decrease-indent'' then
        decrease_indent_calls selection model selectedText
      else [])"

definition handleMarkdownAction :: "i18n \<Rightarrow> editor option \<Rightarrow> string \<Rightarrow> call list" where
  "handleMarkdownAction tr editorRef actionType =
     (case editorRef of
        None \<Rightarrow> []
      | Some ed \<Rightarrow>
          (case getSelection ed of
             None \<Rightarrow> []
           | Some selection \<Rightarrow>
               (case getModel ed of
                  None \<Rightarrow> []
                | Some model \<Rightarrow>
                    dispatch tr editorRef selection model
                      (getValueInRange model selection) actionType)))"

text \<open>
  The key bindings registered on mount: one action per formatting identifier, and one for
  each heading level from 1 to 6, each running the dispatcher on its identifier.
\<close>

definition heading_binding :: "i18n \<Rightarrow> editor option \<Rightarrow> nat \<Rightarrow> call list" where
  "heading_binding tr editorRef level =
     handleMarkdownAction tr editorRef (''heading-'' @ show_nat level)"

section \<open>The text after the widget has carried out a call\<close>

text \<open>
  The widget keeps the text and an undo stack of the texts its undo steps started from.
  An edit requested by the component replaces the text of its range; it joins the undo step
  that is open, and opens one when none is.  The \<open>undo\<close> command takes back the last
  step, open or closed.  Moving the cursor or the focus leaves the text alone.
\<close>

record document =
  text_of :: string
  undoStack :: "string list"
  stepOpen :: bool

definition applyEdit :: "string \<Rightarrow> range \<Rightarrow> string \<Rightarrow> string" where
  "applyEdit model r new =
     (let b = offsetAt model (startLineNumber r) (startColumn r);
          e = offsetAt model (endLineNumber r) (endColumn r)
      in take b model @ new @ drop (max b e) model)"

fun perform :: "call \<Rightarrow> document \<Rightarrow> document" where
  "perform (ExecuteEdits src r new) d =
     \<lparr>text_of = applyEdit (text_of d) r new,
      undoStack = (if stepOpen d then undoStack d else text_of d # undoStack d),
      stepOpen = True\<rparr>"
| "perform (Trigger cmd) d =
     (if cmd = ''undo''
      then (case undoStack d of
              [] \<Rightarrow> d
            | prev # rest \<Rightarrow> \<lparr>text_of = prev, undoStack = rest, stepOpen = False\<rparr>)
      else d)"
| "perform (SetSelection r) d = d"
| "perform (SetPosition ln col) d = d"
| "perform Focus d = d"

definition perform_all :: "call list \<Rightarrow> document \<Rightarrow> document" where
  "perform_all cs d = fold perform cs d"

text \<open>
  What the widget does to the text by itself.  Text that the user types or pastes is
  inserted as an undo step of its own, closed on both sides.  On a paste event the widget
  inserts the text of the clipboard, and nothing when the clipboard has no text (a
  clipboard that holds only a file); the paste handler of the component runs after that.
\<close>

definition widget_insert :: "range \<Rightarrow> string \<Rightarrow> document \<Rightarrow> document" where
  "widget_insert r new d =
     \<lparr>text_of = applyEdit (text_of d) r new, undoStack = text_of d # undoStack d,
      stepOpen = False\<rparr>"

definition widget_paste :: "string \<Rightarrow> range \<Rightarrow> document \<Rightarrow> document" where
  "widget_paste clipboardText selection d =
     (if clipboardText = [] then d else widget_insert selection clipboardText d)"

section \<open>Uploading an image\<close>

record File =
  file_name :: string
  file_size :: nat

text \<open>
  The two callbacks handed to \<open>uploadImage\<close> as \<open>onSuccess\<close>: the paste handler reads
  the selection when the address arrives, the drop handler and the upload button insert at
  the selection they read when the file was submitted.
\<close>

datatype on_success = InsertAtCurrent File | InsertAt range File

datatype effect =
    Widget call
  | Alert string
  | ClearInput
  | SetUploading bool
  | Post File on_success
  | ConsoleError string

text \<open>
  The request settles in one of two ways: the promise resolves with the fields \<open>data\<close>
  and \<open>error\<close>, either of which may be null, or it rejects.
\<close>

datatype fetch_error = FetchError nat string

datatype response =
    Resolved "string option" "fetch_error option"
  | Rejected string

definition image_markdown :: "File \<Rightarrow> string \<Rightarrow> string" where
  "image_markdown f url = ''!['' @ file_name f @ '']('' @ url @ '')'' @ [newline]"

text \<open>\<open>ed\<close> is the widget as it is when the callback runs.\<close>

fun onSuccess :: "editor \<Rightarrow> on_success \<Rightarrow> string \<Rightarrow> effect list" where
  "onSuccess ed (InsertAtCurrent myfile) url =
     (case getSelection ed of
        None \<Rightarrow> []
      | Some selection \<Rightarrow>
          [Widget (ExecuteEdits None selection (image_markdown myfile url)),
           SetUploading False])"
| "onSuccess ed (InsertAt selection f) url =
     [SetUploading False,
      Widget (ExecuteEdits None selection (image_markdown f url))]"

text \<open>
  \<open>uploadImage\<close> sends the request; \<open>uploadImage_settled\<close> is what its \<open>then\<close> and
  \<open>catch\<close> handlers do once the request has settled.  \<open>showAlert\<close> is
  \<open>console.error\<close> at each of the three places that call \<open>uploadImage\<close>.
\<close>

definition uploadImage :: "File \<Rightarrow> on_success \<Rightarrow> effect list" where
  "uploadImage f k = [Post f k]"

fun uploadImage_settled :: "i18n \<Rightarrow> editor \<Rightarrow> on_success \<Rightarrow> response \<Rightarrow> effect list" where
  "uploadImage_settled tr ed k (Resolved data error) =
     (if error \<noteq> None then [ConsoleError (t tr ''upload.failed'')] else []) @
     (case data of
        None \<Rightarrow> []
      | Some url \<Rightarrow> if url \<noteq> [] then onSuccess ed k url else [])"
| "uploadImage_settled tr ed k (Rejected e) =
     [ConsoleError e, ConsoleError (t tr ''upload.failed'')]"

definition handlePaste :: "editor option \<Rightarrow> File list \<Rightarrow> effect list" where
  "handlePaste editorRef files =
     (if length files = 1
      then (case editorRef of
              None \<Rightarrow> []
            | Some ed \<Rightarrow>
                [Widget (Trigger ''undo''), SetUploading True] @
                uploadImage (files ! 0) (InsertAtCurrent (files ! 0)))
      else [])"

text \<open>
  The upload button.  The loop reads the list of files from the input element at every
  turn, and clearing the value of the input empties that list.
\<close>

function upChange_from :: "editor option \<Rightarrow> File list \<Rightarrow> nat \<Rightarrow> effect list" where
  "upChange_from editorRef files i =
     (if i < length files
      then (let f = files ! i
            in if file_size f > 5 * 1024000
               then [Alert ''File too large (max 5MB)'', ClearInput] @
                    upChange_from editorRef [] (i + 1)
               else (case editorRef of
                       None \<Rightarrow> []
                     | Some ed \<Rightarrow>
                         (case getSelection ed of
                            None \<Rightarrow> []
                          | Some selection \<Rightarrow>
                              [SetUploading True] @ uploadImage f (InsertAt selection f) @
                              upChange_from editorRef files (i + 1))))
      else [])"
  by pat_completeness auto
termination
  by (relation "measure (\<lambda>(editorRef, files, i). length files - i)") auto

declare upChange_from.simps [simp del]

definition upChange :: "editor option \<Rightarrow> File list \<Rightarrow> effect list" where
  "upChange editorRef files = upChange_from editorRef files 0"

text \<open>Dropping files on the editor: no size check, the selection is read for every file.\<close>

fun onDrop_loop :: "editor \<Rightarrow> File list \<Rightarrow> effect list" where
  "onDrop_loop ed [] = []"
| "onDrop_loop ed (f # files) =
     (case getSelection ed of
        None \<Rightarrow> []
      | Some selection \<Rightarrow>
          [SetUploading True] @ uploadImage f (InsertAt selection f) @ onDrop_loop ed files)"

definition onDrop :: "editor option \<Rightarrow> File list \<Rightarrow> effect list" where
  "onDrop editorRef files =
     (case editorRef of None \<Rightarrow> [] | Some ed \<Rightarrow> onDrop_loop ed files)"

text \<open>
  A whole interaction: what the handler did, then, for every request it sent, what the
  settled request did.  \<open>respond\<close> gives the outcome of the request for a file and
  \<open>later\<close> is the widget as it is by then.
\<close>

fun settle :: "i18n \<Rightarrow> editor \<Rightarrow> (File \<Rightarrow> response) \<Rightarrow> effect \<Rightarrow> effect list" where
  "settle tr later respond (Post f k) = uploadImage_settled tr later k (respond f)"
| "settle tr later respond e = []"

definition interaction ::
    "i18n \<Rightarrow> editor \<Rightarrow> (File \<Rightarrow> response) \<Rightarrow> effect list \<Rightarrow> effect list" where
  "interaction tr later respond es = es @ concat (map (settle tr later respond) es)"

text \<open>
  The request has failed when the promise rejects, or resolves with an error and without an
  address.
\<close>

fun failed :: "response \<Rightarrow> bool" where
  "failed (Rejected e) = True"
| "failed (Resolved data error) = (error \<noteq> None \<and> (data = None \<or> data = Some []))"

fun widget_calls :: "effect list \<Rightarrow> call list" where
  "widget_calls [] = []"
| "widget_calls (Widget c # es) = c # widget_calls es"
| "widget_calls (e # es) = widget_calls es"

definition text_after :: "effect list \<Rightarrow> document \<Rightarrow> string" where
  "text_after es d = text_of (perform_all (widget_calls es) d)"

section \<open>The bridge to the parent state\<close>

text \<open>
  The four listeners registered on mount.  \<open>isComposing\<close> is the flag they share; the
  string is what \<open>getValue()\<close> returns when the listener runs; the result is the new flag
  and the arguments of the calls of \<open>setContent\<close> the listener made.
\<close>

datatype event = CompositionStart | CompositionEnd | ChangeModelContent | BlurEditorText

fun listener :: "bool \<Rightarrow> event \<Rightarrow> string \<Rightarrow> bool \<times> string list" where
  "listener isComposing CompositionStart getValue = (True, [])"
| "listener isComposing CompositionEnd getValue = (False, [getValue])"
| "listener isComposing ChangeModelContent getValue =
     (isComposing, if \<not> isComposing then [getValue] else [])"
| "listener isComposing BlurEditorText getValue = (isComposing, [getValue])"

text \<open>A run of events, each with the text of the editor at that moment: what every event sent up.\<close>

fun run :: "bool \<Rightarrow> (event \<times> string) list \<Rightarrow> (event \<times> string list) list" where
  "run isComposing [] = []"
| "run isComposing ((e, v) # evs) =
     (e, snd (listener isComposing e v)) # run (fst (listener isComposing e v)) evs"

section \<open>Properties of the string primitives\<close>

lemma startsWith_wrap: "startsWith (p @ x) p"
  by (simp add: startsWith_def)

lemma endsWith_wrap: "endsWith (x @ p) p"
  by (simp add: endsWith_def)

lemma slice_wrap:
  "q \<noteq> [] \<Longrightarrow> slice (p @ x @ q) (int (length p)) (- int (length q)) = x"
  by (simp add: slice_def Let_def)

section \<open>Toggling the inline markers\<close>

lemma bold_text_strip: "bold_text (''**'' @ x @ ''**'') = x"
proof -
  have s: "startsWith (''**'' @ x @ ''**'') ''**''"
    by (rule startsWith_wrap)
  have e: "endsWith (''**'' @ x @ ''**'') ''**''"
    using endsWith_wrap [where x = "''**'' @ x" and p = "''**''"] by simp
  have "slice (''**'' @ x @ ''**'') 2 (- 2) = x"
    using slice_wrap [where p = "''**''" and x = x and q = "''**''"] by simp
  with s e show ?thesis
    by (simp only: bold_text_def if_True simp_thms)
qed

lemma handleMarkdownAction_dispatch:
  "getModel ed = Some m \<Longrightarrow> getSelection ed = Some sel \<Longrightarrow>
   handleMarkdownAction tr (Some ed) a = dispatch tr (Some ed) sel m (getValueInRange m sel) a"
  by (simp add: handleMarkdownAction_def)

lemma dispatch_bold:
  "dispatch tr e sel m x ''bold'' = [ExecuteEdits (Some ''bold'') sel (bold_text x)]"
  by (simp add: dispatch_def)

lemma handleMarkdownAction_bold:
  "getModel ed = Some m \<Longrightarrow> getSelection ed = Some sel \<Longrightarrow>
   handleMarkdownAction tr (Some ed) ''bold'' =
     [ExecuteEdits (Some ''bold'') sel (bold_text (getValueInRange m sel))]"
  by (simp only: handleMarkdownAction_dispatch dispatch_bold)

text \<open>
  C5.  When the selection \<open>x\<close> does not both start and end with the bold marker, the
  bold action replaces it by \<open>x\<close> between two markers; on \<open>x\<close> between two markers it
  gives \<open>x\<close> back; so the action applied twice to \<open>x\<close> returns \<open>x\<close>.  Both steps are
  stated of the text and of the dispatcher: on an editor whose selected text is \<open>x\<close> the
  one edit requested writes \<open>x\<close> between two markers over the selection, and on an editor
  whose selected text is \<open>x\<close> between two markers the one edit requested writes \<open>x\<close>.
  For every selection the dispatcher requests one edit, over the selection, with the text
  of the bold toggle.
\<close>

theorem bold_toggle_round_trip:
  assumes "\<not> (startsWith x ''**'' \<and> endsWith x ''**'')"
  shows "bold_text x = ''**'' @ x @ ''**'' \<and>
         bold_text (''**'' @ x @ ''**'') = x \<and>
         bold_text (bold_text x) = x \<and>
         (getModel ed = Some m \<and> getSelection ed = Some sel \<and> getValueInRange m sel = x \<longrightarrow>
            handleMarkdownAction tr (Some ed) ''bold'' =
              [ExecuteEdits (Some ''bold'') sel (''**'' @ x @ ''**'')]) \<and>
         (getModel edb = Some mb \<and> getSelection edb = Some selb \<and>
          getValueInRange mb selb = ''**'' @ x @ ''**'' \<longrightarrow>
            handleMarkdownAction tr (Some edb) ''bold'' =
              [ExecuteEdits (Some ''bold'') selb x]) \<and>
         (getModel edc = Some mc \<and> getSelection edc = Some selc \<longrightarrow>
            handleMarkdownAction tr (Some edc) ''bold'' =
              [ExecuteEdits (Some ''bold'') selc (bold_text (getValueInRange mc selc))])"
proof -
  have w: "bold_text x = ''**'' @ x @ ''**''"
    using assms by (auto simp: bold_text_def)
  have r: "bold_text (bold_text x) = x"
    by (simp only: w bold_text_strip)
  have a: "getModel ed = Some m \<and> getSelection ed = Some sel \<and> getValueInRange m sel = x \<longrightarrow>
      handleMarkdownAction tr (Some ed) ''bold'' =
        [ExecuteEdits (Some ''bold'') sel (''**'' @ x @ ''**'')]"
    using w by (auto simp: handleMarkdownAction_bold)
  have b: "getModel edb = Some mb \<and> getSelection edb = Some selb \<and>
      getValueInRange mb selb = ''**'' @ x @ ''**'' \<longrightarrow>
      handleMarkdownAction tr (Some edb) ''bold'' = [ExecuteEdits (Some ''bold'') selb x]"
  proof
    assume h: "getModel edb = Some mb \<and> getSelection edb = Some selb \<and>
      getValueInRange mb selb = ''**'' @ x @ ''**''"
    then have "handleMarkdownAction tr (Some edb) ''bold'' =
        [ExecuteEdits (Some ''bold'') selb (bold_text (getValueInRange mb selb))]"
      by (simp only: handleMarkdownAction_bold)
    with h show "handleMarkdownAction tr (Some edb) ''bold'' = [ExecuteEdits (Some ''bold'') selb x]"
      by (simp only: bold_text_strip)
  qed
  have c: "getModel edc = Some mc \<and> getSelection edc = Some selc \<longrightarrow>
      handleMarkdownAction tr (Some edc) ''bold'' =
        [ExecuteEdits (Some ''bold'') selc (bold_text (getValueInRange mc selc))]"
    by (auto simp: handleMarkdownAction_bold)
  from w bold_text_strip [of x] r a b c show ?thesis
    by blast
qed

text \<open>
  The round trip on the selection \<open>hello\<close> of the text \<open>say hello\<close>, and back from the
  selection \<open>**hello**\<close> of the text \<open>say **hello**\<close>.
\<close>

theorem bold_toggle_round_trip_witness:
  "\<not> (startsWith ''hello'' ''**'' \<and> endsWith ''hello'' ''**'') \<and>
   bold_text ''hello'' = ''**hello**'' \<and> bold_text ''**hello**'' = ''hello'' \<and>
   bold_text (bold_text ''hello'') = ''hello'' \<and>
   handleMarkdownAction untranslated
       (Some \<lparr>getModel = Some ''say hello'', getSelection = Some (Range 1 5 1 10)\<rparr>) ''bold''
     = [ExecuteEdits (Some ''bold'') (Range 1 5 1 10) ''**hello**''] \<and>
   handleMarkdownAction untranslated
       (Some \<lparr>getModel = Some ''say **hello**'', getSelection = Some (Range 1 5 1 14)\<rparr>) ''bold''
     = [ExecuteEdits (Some ''bold'') (Range 1 5 1 14) ''hello'']"
proof -
  have h: "\<not> (startsWith ''hello'' ''**'' \<and> endsWith ''hello'' ''**'')"
    by (simp add: startsWith_def)
  have g: "getValueInRange ''say hello'' (Range 1 5 1 10) = ''hello''"
    by (simp add: getValueInRange_def Range_def newline_def lineTerminator_def ends_line_def)
  have gb: "getValueInRange ''say **hello**'' (Range 1 5 1 14) = ''**hello**''"
    by (simp add: getValueInRange_def Range_def newline_def lineTerminator_def ends_line_def)
  show ?thesis
    using h g gb
      bold_toggle_round_trip [OF h, where tr = untranslated
        and ed = "\<lparr>getModel = Some ''say hello'', getSelection = Some (Range 1 5 1 10)\<rparr>"
        and m = "''say hello''" and sel = "Range 1 5 1 10"
        and edb = "\<lparr>getModel = Some ''say **hello**'', getSelection = Some (Range 1 5 1 14)\<rparr>"
        and mb = "''say **hello**''" and selb = "Range 1 5 1 14"]
    by simp
qed

lemma strip_one_each_end:
  assumes "startsWith s [c]" "endsWith s [c]" "1 < length s"
  shows "[c] @ slice s 1 (- 1) @ [c] = s"
proof -
  define u where "u = take (length s - 1) s"
  from assms(2) have "drop (length s - 1) s = [c]"
    by (simp add: endsWith_def)
  then have s: "s = u @ [c]"
    unfolding u_def by (metis append_take_drop_id)
  with assms(3) have "u \<noteq> []"
    by auto
  with assms(1) s obtain v where "u = c # v"
    by (cases u) (auto simp: startsWith_def)
  with s have "s = [c] @ v @ [c]"
    by simp
  moreover have "slice ([c] @ v @ [c]) 1 (- 1) = v"
    using slice_wrap [where p = "[c]" and x = v and q = "[c]"] by simp
  ultimately show ?thesis
    by simp
qed

text \<open>
  C9.  Whenever the selection starts and ends with one asterisk and is longer than one
  character, the italic action takes one asterisk off each end; a selection wrapped in
  bold markers is such a selection, so it is reduced to \<open>x\<close> between single asterisks
  rather than wrapped.
\<close>

theorem italic_strips_bold_wrapped:
  "(startsWith s ''*'' \<and> endsWith s ''*'' \<and> 1 < length s \<longrightarrow> ''*'' @ italic_text s @ ''*'' = s) \<and>
   italic_text (''**'' @ x @ ''**'') = ''*'' @ x @ ''*'' \<and>
   (getModel ed = Some m \<and> getSelection ed = Some sel \<longrightarrow>
      handleMarkdownAction tr (Some ed) ''italic'' =
        [ExecuteEdits (Some ''italic'') sel (italic_text (getValueInRange m sel))])"
proof -
  have a: "startsWith s ''*'' \<and> endsWith s ''*'' \<and> 1 < length s \<longrightarrow> ''*'' @ italic_text s @ ''*'' = s"
    using strip_one_each_end [of s "CHR ''*''"] by (simp add: italic_text_def)
  have s: "startsWith (''**'' @ x @ ''**'') ''*''"
    by (simp add: startsWith_def)
  have e: "endsWith (''**'' @ x @ ''**'') ''*''"
    using endsWith_wrap [where x = "''**'' @ x @ ''*''" and p = "''*''"] by simp
  have "slice (''*'' @ (''*'' @ x @ ''*'') @ ''*'') 1 (- 1) = ''*'' @ x @ ''*''"
    using slice_wrap [where p = "''*''" and x = "''*'' @ x @ ''*''" and q = "''*''"] by simp
  then have "slice (''**'' @ x @ ''**'') 1 (- 1) = ''*'' @ x @ ''*''"
    by simp
  with s e have b: "italic_text (''**'' @ x @ ''**'') = ''*'' @ x @ ''*''"
    by (simp add: italic_text_def)
  have c: "getModel ed = Some m \<and> getSelection ed = Some sel \<longrightarrow>
      handleMarkdownAction tr (Some ed) ''italic'' =
        [ExecuteEdits (Some ''italic'') sel (italic_text (getValueInRange m sel))]"
    by (auto simp: handleMarkdownAction_dispatch dispatch_def)
  from a b c show ?thesis
    by blast
qed

text \<open>The italic action on the selection \<open>**x**\<close>.\<close>

theorem italic_strips_bold_wrapped_witness:
  "startsWith ''**x**'' ''*'' \<and> endsWith ''**x**'' ''*'' \<and> 1 < length ''**x**'' \<and>
   ''*'' @ italic_text ''**x**'' @ ''*'' = ''**x**'' \<and> italic_text ''**x**'' = ''*x*'' \<and>
   handleMarkdownAction untranslated
       (Some \<lparr>getModel = Some ''**x**'', getSelection = Some (Range 1 1 1 6)\<rparr>) ''italic'' =
     [ExecuteEdits (Some ''italic'') (Range 1 1 1 6) ''*x*'']"
proof -
  have h: "startsWith ''**x**'' ''*'' \<and> endsWith ''**x**'' ''*'' \<and> 1 < length ''**x**''"
    by (simp add: startsWith_def endsWith_def)
  have g: "getValueInRange ''**x**'' (Range 1 1 1 6) = ''**x**''"
    by (simp add: getValueInRange_def Range_def newline_def lineTerminator_def ends_line_def)
  show ?thesis
    using h g
      italic_strips_bold_wrapped [where s = "''**x**''" and x = "''x''" and m = "''**x**''"
        and sel = "Range 1 1 1 6" and tr = untranslated
        and ed = "\<lparr>getModel = Some ''**x**'', getSelection = Some (Range 1 1 1 6)\<rparr>"]
    by simp
qed

text \<open>
  C10, as stated, fails: wrapping the one-character selection \<open>*\<close> gives five
  asterisks, not three, and the second application does not give the empty string.
\<close>

theorem bold_twice_on_star_counterexample:
  "bold_text ''*'' \<noteq> ''***'' \<and> bold_text (bold_text ''*'') \<noteq> []"
  by (simp add: bold_text_def startsWith_def endsWith_def slice_def)

text \<open>
  C10, amended.  The strip branch of the bold action has no guard on the length.  On a
  selection that starts and ends with the marker and is shorter than four characters (the
  two markers overlap) the bold action writes the empty string over the selection; on the
  empty selection it writes four asterisks, which is not the selection it started from.
  The selection \<open>*\<close> is wrapped into five asterisks and five asterisks are stripped to
  \<open>*\<close>, so the action applied twice to \<open>*\<close> returns it.  Each step is stated of the
  text and of the edit the dispatcher requests.
\<close>

theorem bold_strip_overlapping_markers:
  "(startsWith s ''**'' \<and> endsWith s ''**'' \<and> length s < 4 \<longrightarrow>
      bold_text s = [] \<and> bold_text (bold_text s) = ''****'' \<and> bold_text (bold_text s) \<noteq> s) \<and>
   bold_text ''***'' = [] \<and>
   bold_text ''*'' = ''*****'' \<and> bold_text (bold_text ''*'') = ''*'' \<and>
   (startsWith s ''**'' \<and> endsWith s ''**'' \<and> length s < 4 \<and>
    getModel ed = Some m \<and> getSelection ed = Some sel \<and> getValueInRange m sel = s \<longrightarrow>
      handleMarkdownAction tr (Some ed) ''bold'' = [ExecuteEdits (Some ''bold'') sel []]) \<and>
   (getModel ed = Some m \<and> getSelection ed = Some sel \<and> getValueInRange m sel = [] \<longrightarrow>
      handleMarkdownAction tr (Some ed) ''bold'' = [ExecuteEdits (Some ''bold'') sel ''****'']) \<and>
   (getModel ed = Some m \<and> getSelection ed = Some sel \<and> getValueInRange m sel = ''*'' \<longrightarrow>
      handleMarkdownAction tr (Some ed) ''bold'' = [ExecuteEdits (Some ''bold'') sel ''*****'']) \<and>
   (getModel ed = Some m \<and> getSelection ed = Some sel \<and> getValueInRange m sel = ''*****'' \<longrightarrow>
      handleMarkdownAction tr (Some ed) ''bold'' = [ExecuteEdits (Some ''bold'') sel ''*'']) \<and>
   (getModel ed = Some m \<and> getSelection ed = Some sel \<longrightarrow>
      handleMarkdownAction tr (Some ed) ''bold'' =
        [ExecuteEdits (Some ''bold'') sel (bold_text (getValueInRange m sel))])"
proof -
  have e: "bold_text [] = ''****''"
    by (simp add: bold_text_def startsWith_def)
  have z: "bold_text s = []"
    if h: "startsWith s ''**'' \<and> endsWith s ''**'' \<and> length s < 4"
    using h by (auto simp: bold_text_def slice_def Let_def)
  have a: "bold_text s = [] \<and> bold_text (bold_text s) = ''****'' \<and> bold_text (bold_text s) \<noteq> s"
    if h: "startsWith s ''**'' \<and> endsWith s ''**'' \<and> length s < 4"
  proof -
    from h have "s \<noteq> ''****''"
      by auto
    with z [OF h] show ?thesis
      using e by simp
  qed
  have b: "bold_text ''***'' = []"
    by (simp add: bold_text_def startsWith_def endsWith_def slice_def)
  have c: "bold_text ''*'' = ''*****''"
    by (simp add: bold_text_def startsWith_def)
  have c5: "bold_text ''*****'' = ''*''"
    by (simp add: bold_text_def startsWith_def endsWith_def slice_def)
  with c have d: "bold_text (bold_text ''*'') = ''*''"
    by simp
  have g: "handleMarkdownAction tr (Some ed) ''bold'' =
        [ExecuteEdits (Some ''bold'') sel (bold_text (getValueInRange m sel))]"
    if "getModel ed = Some m \<and> getSelection ed = Some sel"
    using that by (simp only: handleMarkdownAction_bold)
  have h1: "startsWith s ''**'' \<and> endsWith s ''**'' \<and> length s < 4 \<and>
      getModel ed = Some m \<and> getSelection ed = Some sel \<and> getValueInRange m sel = s \<longrightarrow>
      handleMarkdownAction tr (Some ed) ''bold'' = [ExecuteEdits (Some ''bold'') sel []]"
    using g z by auto
  have h2: "getModel ed = Some m \<and> getSelection ed = Some sel \<and> getValueInRange m sel = [] \<longrightarrow>
      handleMarkdownAction tr (Some ed) ''bold'' = [ExecuteEdits (Some ''bold'') sel ''****'']"
    using g e by auto
  have h3: "getModel ed = Some m \<and> getSelection ed = Some sel \<and> getValueInRange m sel = ''*'' \<longrightarrow>
      handleMarkdownAction tr (Some ed) ''bold'' = [ExecuteEdits (Some ''bold'') sel ''*****'']"
    using g c by auto
  have h4: "getModel ed = Some m \<and> getSelection ed = Some sel \<and> getValueInRange m sel = ''*****'' \<longrightarrow>
      handleMarkdownAction tr (Some ed) ''bold'' = [ExecuteEdits (Some ''bold'') sel ''*'']"
    using g c5 by auto
  have h5: "getModel ed = Some m \<and> getSelection ed = Some sel \<longrightarrow>
      handleMarkdownAction tr (Some ed) ''bold'' =
        [ExecuteEdits (Some ''bold'') sel (bold_text (getValueInRange m sel))]"
    using g by blast
  from a b c d h1 h2 h3 h4 h5 show ?thesis
    by blast
qed

text \<open>
  The overlapping markers of the selection \<open>***\<close> in the text \<open>a *** b\<close>, and the
  selection \<open>**\<close>.
\<close>

theorem bold_strip_overlapping_markers_witness:
  "startsWith ''***'' ''**'' \<and> endsWith ''***'' ''**'' \<and> length ''***'' < 4 \<and>
   bold_text ''***'' = [] \<and> bold_text (bold_text ''***'') = ''****'' \<and>
   handleMarkdownAction untranslated
       (Some \<lparr>getModel = Some ''a *** b'', getSelection = Some (Range 1 3 1 6)\<rparr>) ''bold''
     = [ExecuteEdits (Some ''bold'') (Range 1 3 1 6) []] \<and>
   startsWith ''**'' ''**'' \<and> endsWith ''**'' ''**'' \<and> length ''**'' < 4 \<and>
   handleMarkdownAction untranslated
       (Some \<lparr>getModel = Some ''**'', getSelection = Some (Range 1 1 1 3)\<rparr>) ''bold''
     = [ExecuteEdits (Some ''bold'') (Range 1 1 1 3) []]"
proof -
  let ?ea = "\<lparr>getModel = Some ''a *** b'', getSelection = Some (Range 1 3 1 6)\<rparr>"
  let ?eb = "\<lparr>getModel = Some ''**'', getSelection = Some (Range 1 1 1 3)\<rparr>"
  have h: "startsWith ''***'' ''**'' \<and> endsWith ''***'' ''**'' \<and> length ''***'' < 4"
    by (simp add: startsWith_def endsWith_def)
  have hb: "startsWith ''**'' ''**'' \<and> endsWith ''**'' ''**'' \<and> length ''**'' < 4"
    by (simp add: startsWith_def endsWith_def)
  have g: "getModel ?ea = Some ''a *** b'' \<and> getSelection ?ea = Some (Range 1 3 1 6) \<and>
      getValueInRange ''a *** b'' (Range 1 3 1 6) = ''***''"
    by (simp add: getValueInRange_def Range_def newline_def lineTerminator_def ends_line_def)
  have gb: "getModel ?eb = Some ''**'' \<and> getSelection ?eb = Some (Range 1 1 1 3) \<and>
      getValueInRange ''**'' (Range 1 1 1 3) = ''**''"
    by (simp add: getValueInRange_def Range_def newline_def lineTerminator_def ends_line_def)
  from h g bold_strip_overlapping_markers [where s = "''***''" and tr = untranslated
      and ed = ?ea and m = "''a *** b''" and sel = "Range 1 3 1 6"]
  have a: "bold_text ''***'' = [] \<and> bold_text (bold_text ''***'') = ''****'' \<and>
      handleMarkdownAction untranslated (Some ?ea) ''bold''
      = [ExecuteEdits (Some ''bold'') (Range 1 3 1 6) []]"
    by blast
  from hb gb bold_strip_overlapping_markers [where s = "''**''" and tr = untranslated
      and ed = ?eb and m = "''**''" and sel = "Range 1 1 1 3"]
  have b: "handleMarkdownAction untranslated (Some ?eb) ''bold''
      = [ExecuteEdits (Some ''bold'') (Range 1 1 1 3) []]"
    by blast
  from h hb a b show ?thesis
    by blast
qed

section \<open>Clear-format\<close>

lemma dispatch_clear_format:
  "dispatch tr e sel m x ''clear-format'' =
     [ExecuteEdits (Some ''clear-format'') sel (clear_format_text x)]"
  by (simp add: dispatch_def)

text \<open>
  C2.  The code on the selection \<open>**a** _b_ `c` [d](e)\<close>, where it departs from the
  claim.  Clear-format is to remove every mark of the selection and leave \<open>a b c d\<close>; the
  edit the dispatcher requests writes \<open>a _b_ c d\<close>: the bold marks, the code marks and the
  link are removed, the emphasis marks around \<open>b\<close> are not, since none of the nine
  substitutions names the underscore.  With asterisks around \<open>b\<close> the text is cleared.
\<close>

theorem clear_format_keeps_underscores:
  "clear_format_text ''**a** _b_ `c` [d](e)'' = ''a _b_ c d'' \<and>
   clear_format_text ''**a** _b_ `c` [d](e)'' \<noteq> ''a b c d'' \<and>
   clear_format_text ''**a** *b* `c` [d](e)'' = ''a b c d'' \<and>
   handleMarkdownAction tr
       (Some \<lparr>getModel = Some ''**a** _b_ `c` [d](e)'', getSelection = Some (Range 1 1 1 21)\<rparr>)
       ''clear-format'' =
     [ExecuteEdits (Some ''clear-format'') (Range 1 1 1 21) ''a _b_ c d'']"
proof -
  have a: "clear_format_text ''**a** _b_ `c` [d](e)'' = ''a _b_ c d''"
    by code_simp
  have b: "clear_format_text ''**a** *b* `c` [d](e)'' = ''a b c d''"
    by code_simp
  have n: "clear_format_text ''**a** _b_ `c` [d](e)'' \<noteq> ''a b c d''"
    by (simp only: a) simp
  have g: "getValueInRange ''**a** _b_ `c` [d](e)'' (Range 1 1 1 21) = ''**a** _b_ `c` [d](e)''"
    by (simp add: getValueInRange_def Range_def newline_def lineTerminator_def ends_line_def)
  have "handleMarkdownAction tr
       (Some \<lparr>getModel = Some ''**a** _b_ `c` [d](e)'', getSelection = Some (Range 1 1 1 21)\<rparr>)
       ''clear-format'' =
     dispatch tr
       (Some \<lparr>getModel = Some ''**a** _b_ `c` [d](e)'', getSelection = Some (Range 1 1 1 21)\<rparr>)
       (Range 1 1 1 21) ''**a** _b_ `c` [d](e)''
       (getValueInRange ''**a** _b_ `c` [d](e)'' (Range 1 1 1 21)) ''clear-format''"
    by (rule handleMarkdownAction_dispatch) simp_all
  then have "handleMarkdownAction tr
       (Some \<lparr>getModel = Some ''**a** _b_ `c` [d](e)'', getSelection = Some (Range 1 1 1 21)\<rparr>)
       ''clear-format'' =
     [ExecuteEdits (Some ''clear-format'') (Range 1 1 1 21) ''a _b_ c d'']"
    by (simp only: g dispatch_clear_format a)
  with a b n show ?thesis
    by blast
qed

section \<open>The size limit of the upload button\<close>

lemma upChange_from_posts_within_limit:
  "Post f k \<in> set (upChange_from editorRef files i) \<Longrightarrow> file_size f \<le> 5120000"
proof (induction editorRef files i rule: upChange_from.induct)
  case (1 editorRef files i)
  show ?case
  proof (cases "i < length files \<and> \<not> 5120000 < file_size (files ! i)")
    case True
    show ?thesis
    proof (cases editorRef)
      case None
      with True "1.prems" show ?thesis
        by (subst (asm) upChange_from.simps) (simp add: Let_def)
    next
      case (Some ed)
      show ?thesis
      proof (cases "getSelection ed")
        case None
        with Some True "1.prems" show ?thesis
          by (subst (asm) upChange_from.simps) (simp add: Let_def)
      next
        case (Some selection)
        with \<open>editorRef = Some ed\<close> True "1.prems"
        have "Post f k = Post (files ! i) (InsertAt selection (files ! i)) \<or>
              Post f k \<in> set (upChange_from editorRef files (i + 1))"
          by (subst (asm) upChange_from.simps) (auto simp: Let_def uploadImage_def)
        then show ?thesis
        proof
          assume "Post f k = Post (files ! i) (InsertAt selection (files ! i))"
          with True show ?thesis
            by simp
        next
          assume "Post f k \<in> set (upChange_from editorRef files (i + 1))"
          with "1.IH"(2) [OF _ refl _ \<open>editorRef = Some ed\<close> Some] True show ?thesis
            by simp
        qed
      qed
    qed
  next
    case False
    with "1.prems" show ?thesis
      by (subst (asm) upChange_from.simps)
         (auto simp: Let_def upChange_from.simps [of _ "[]"])
  qed
qed

lemma upChange_from_oversized:
  "i < length files \<Longrightarrow> 5120000 < file_size (files ! i) \<Longrightarrow>
   upChange_from editorRef files i = [Alert ''File too large (max 5MB)'', ClearInput]"
  by (subst upChange_from.simps) (simp add: Let_def upChange_from.simps [of _ "[]"])

text \<open>
  C1, amended.  The limit of the upload button is \<open>5 * 1024000 = 5120000\<close> bytes.  A file
  larger than that, submitted through the change handler, takes the size-exceeded path:
  the alert is shown, the input is cleared and nothing else is done; wherever the loop
  reaches such a file it does the same; and no submission sends a request for it.
\<close>

theorem upChange_size_exceeded:
  assumes "5120000 < file_size f"
  shows "upChange editorRef [f] = [Alert ''File too large (max 5MB)'', ClearInput] \<and>
         (\<forall>files i. i < length files \<and> files ! i = f \<longrightarrow>
            upChange_from editorRef files i = [Alert ''File too large (max 5MB)'', ClearInput]) \<and>
         (\<forall>files k. Post f k \<notin> set (upChange editorRef files))"
proof -
  have "upChange editorRef [f] = [Alert ''File too large (max 5MB)'', ClearInput]"
    using assms upChange_from_oversized [of 0 "[f]" editorRef] by (simp add: upChange_def)
  moreover have "\<forall>files i. i < length files \<and> files ! i = f \<longrightarrow>
      upChange_from editorRef files i = [Alert ''File too large (max 5MB)'', ClearInput]"
    using assms upChange_from_oversized by blast
  moreover have "\<forall>files k. Post f k \<notin> set (upChange editorRef files)"
    using assms upChange_from_posts_within_limit [of f _ editorRef _ 0]
    by (fastforce simp: upChange_def)
  ultimately show ?thesis
    by blast
qed

text \<open>A file of 5120001 bytes.\<close>

theorem upChange_size_exceeded_witness:
  "5120000 < file_size \<lparr>file_name = ''big.png'', file_size = 5120001\<rparr> \<and>
   upChange (Some \<lparr>getModel = Some [], getSelection = Some (Range 1 1 1 1)\<rparr>)
     [\<lparr>file_name = ''big.png'', file_size = 5120001\<rparr>]
     = [Alert ''File too large (max 5MB)'', ClearInput]"
proof -
  have h: "5120000 < file_size \<lparr>file_name = ''big.png'', file_size = 5120001\<rparr>"
    by simp
  from upChange_size_exceeded [OF h] h show ?thesis
    by blast
qed

text \<open>
  C1, as stated, fails: a file of 5000001 bytes is larger than 5000000 bytes, and the
  handler shows no alert and sends the request for it.
\<close>

theorem upChange_five_million_counterexample:
  "5000000 < file_size \<lparr>file_name = ''a.png'', file_size = 5000001\<rparr> \<and>
   upChange (Some \<lparr>getModel = Some [], getSelection = Some (Range 1 1 1 1)\<rparr>)
     [\<lparr>file_name = ''a.png'', file_size = 5000001\<rparr>]
     = [SetUploading True,
        Post \<lparr>file_name = ''a.png'', file_size = 5000001\<rparr>
             (InsertAt (Range 1 1 1 1) \<lparr>file_name = ''a.png'', file_size = 5000001\<rparr>)]"
  by (simp add: upChange_def upChange_from.simps uploadImage_def Let_def)

section \<open>A failed upload\<close>

lemma widget_calls_append: "widget_calls (a @ b) = widget_calls a @ widget_calls b"
  by (induction a rule: widget_calls.induct) simp_all

lemma widget_calls_concat:
  "(\<And>e. e \<in> set es \<Longrightarrow> widget_calls (g e) = []) \<Longrightarrow> widget_calls (concat (map g es)) = []"
  by (induction es) (simp_all add: widget_calls_append)

lemma uploadImage_settled_failed:
  assumes "failed r"
  shows "set (uploadImage_settled tr later k r) \<subseteq> range ConsoleError"
    and "ConsoleError (t tr ''upload.failed'') \<in> set (uploadImage_settled tr later k r)"
  using assms by (cases r; auto)+

lemma widget_calls_console: "set es \<subseteq> range ConsoleError \<Longrightarrow> widget_calls es = []"
  by (induction es rule: widget_calls.induct) auto

lemma settle_failed:
  "\<forall>f. failed (respond f) \<Longrightarrow> widget_calls (settle tr later respond e) = []"
  by (cases e) (simp_all add: widget_calls_console uploadImage_settled_failed(1))

lemma upChange_from_no_widget: "widget_calls (upChange_from editorRef files i) = []"
proof (induction editorRef files i rule: upChange_from.induct)
  case (1 editorRef files i)
  then show ?case
    by (subst upChange_from.simps)
       (auto simp: uploadImage_def Let_def upChange_from.simps [of _ "[]"] split: option.splits)
qed

lemma onDrop_loop_no_widget: "widget_calls (onDrop_loop ed files) = []"
  by (induction files) (auto simp: uploadImage_def split: option.splits)

lemma interaction_failed:
  "\<forall>f. failed (respond f) \<Longrightarrow>
   widget_calls (interaction tr later respond es) = widget_calls es"
  by (simp add: interaction_def widget_calls_append widget_calls_concat settle_failed)

text \<open>
  When every request fails, the handlers of the settled request only write to the error
  log, the translated message among what they write, and ask nothing of the widget.  So on
  the path of the upload button and on the drop path the text of the document after the
  whole interaction is the text before it, and on the paste path the one request to the
  widget is the \<open>undo\<close> command that the paste handler issues before it sends the file.
\<close>

lemma failed_upload_only_logs:
  assumes "\<forall>f. failed (respond f)"
  shows "set (uploadImage_settled tr later k (respond f)) \<subseteq> range ConsoleError \<and>
         ConsoleError (t tr ''upload.failed'') \<in> set (uploadImage_settled tr later k (respond f)) \<and>
         text_after (interaction tr later respond (upChange editorRef files)) d = text_of d \<and>
         text_after (interaction tr later respond (onDrop editorRef files)) d = text_of d \<and>
         widget_calls (interaction tr later respond (handlePaste editorRef files)) =
           (if length files = 1 \<and> editorRef \<noteq> None then [Trigger ''undo''] else [])"
proof -
  from assms have f: "failed (respond f)"
    by simp
  have a: "text_after (interaction tr later respond (upChange editorRef files)) d = text_of d"
    by (simp add: text_after_def interaction_failed [OF assms] upChange_def
        upChange_from_no_widget perform_all_def)
  have b: "text_after (interaction tr later respond (onDrop editorRef files)) d = text_of d"
    by (simp add: text_after_def interaction_failed [OF assms] onDrop_def
        onDrop_loop_no_widget perform_all_def split: option.splits)
  have c: "widget_calls (interaction tr later respond (handlePaste editorRef files)) =
           (if length files = 1 \<and> editorRef \<noteq> None then [Trigger ''undo''] else [])"
    by (auto simp: interaction_failed [OF assms] handlePaste_def uploadImage_def
        split: option.splits)
  from uploadImage_settled_failed [OF f] a b c show ?thesis
    by blast
qed

text \<open>
  C4.  The code on a failed paste, where it departs from the claim.  The user has typed
  \<open>c\<close> after \<open>ab\<close> and then pastes an image, a clipboard without text, so the widget
  inserts nothing; the request is rejected.  The \<open>undo\<close> of the paste handler then takes
  back the \<open>c\<close> the user typed: the text after the interaction is \<open>ab\<close>, where the text
  before it was \<open>abc\<close>.  When the clipboard has the text \<open>x\<close> as well, the \<open>undo\<close>
  takes back what the widget pasted and the text is \<open>abc\<close> as before.  The same file,
  with the same failed request, dropped on the editor or chosen with the upload button
  leaves \<open>abc\<close>.
\<close>

theorem failed_paste_discards_last_edit:
  "failed (Rejected ''offline'') \<and>
   text_of (widget_insert (Range 1 3 1 3) ''c''
              \<lparr>text_of = ''ab'', undoStack = [], stepOpen = False\<rparr>) = ''abc'' \<and>
   text_after
     (interaction untranslated
        \<lparr>getModel = Some ''abc'', getSelection = Some (Range 1 4 1 4)\<rparr>
        (\<lambda>f. Rejected ''offline'')
        (handlePaste (Some \<lparr>getModel = Some ''abc'', getSelection = Some (Range 1 4 1 4)\<rparr>)
           [\<lparr>file_name = ''a.png'', file_size = 100\<rparr>]))
     (widget_paste [] (Range 1 4 1 4)
        (widget_insert (Range 1 3 1 3) ''c''
           \<lparr>text_of = ''ab'', undoStack = [], stepOpen = False\<rparr>)) = ''ab'' \<and>
   text_after
     (interaction untranslated
        \<lparr>getModel = Some ''abcx'', getSelection = Some (Range 1 5 1 5)\<rparr>
        (\<lambda>f. Rejected ''offline'')
        (handlePaste (Some \<lparr>getModel = Some ''abcx'', getSelection = Some (Range 1 5 1 5)\<rparr>)
           [\<lparr>file_name = ''a.png'', file_size = 100\<rparr>]))
     (widget_paste ''x'' (Range 1 4 1 4)
        (widget_insert (Range 1 3 1 3) ''c''
           \<lparr>text_of = ''ab'', undoStack = [], stepOpen = False\<rparr>)) = ''abc'' \<and>
   text_after
     (interaction untranslated
        \<lparr>getModel = Some ''abc'', getSelection = Some (Range 1 4 1 4)\<rparr>
        (\<lambda>f. Rejected ''offline'')
        (onDrop (Some \<lparr>getModel = Some ''abc'', getSelection = Some (Range 1 4 1 4)\<rparr>)
           [\<lparr>file_name = ''a.png'', file_size = 100\<rparr>]))
     (widget_insert (Range 1 3 1 3) ''c''
        \<lparr>text_of = ''ab'', undoStack = [], stepOpen = False\<rparr>) = ''abc'' \<and>
   text_after
     (interaction untranslated
        \<lparr>getModel = Some ''abc'', getSelection = Some (Range 1 4 1 4)\<rparr>
        (\<lambda>f. Rejected ''offline'')
        (upChange (Some \<lparr>getModel = Some ''abc'', getSelection = Some (Range 1 4 1 4)\<rparr>)
           [\<lparr>file_name = ''a.png'', file_size = 100\<rparr>]))
     (widget_insert (Range 1 3 1 3) ''c''
        \<lparr>text_of = ''ab'', undoStack = [], stepOpen = False\<rparr>) = ''abc''"
  by (simp add: text_after_def interaction_def handlePaste_def uploadImage_def perform_all_def
      widget_paste_def widget_insert_def applyEdit_def Range_def onDrop_def upChange_def
      upChange_from.simps Let_def lineTerminator_def ends_line_def)

section \<open>Dispatching without an editor, a selection or a model\<close>

text \<open>
  C8.  Whatever the action identifier, when the editor instance, its selection or its model
  is absent the dispatcher asks nothing of the widget, and the document stays as it is.
  The calls on the widget are all the dispatcher does.
\<close>

theorem handleMarkdownAction_silent_without_editor:
  assumes "editorRef = None \<or>
           (\<exists>ed. editorRef = Some ed \<and> (getSelection ed = None \<or> getModel ed = None))"
  shows "handleMarkdownAction tr editorRef actionType = [] \<and>
         perform_all (handleMarkdownAction tr editorRef actionType) d = d"
proof -
  from assms have "handleMarkdownAction tr editorRef actionType = []"
    by (auto simp: handleMarkdownAction_def split: option.splits)
  then show ?thesis
    by (simp add: perform_all_def)
qed

text \<open>No editor; an editor without a selection; an editor without a model.\<close>

theorem handleMarkdownAction_silent_without_editor_witness:
  "handleMarkdownAction untranslated None ''bold'' = [] \<and>
   handleMarkdownAction untranslated
     (Some \<lparr>getModel = Some ''text'', getSelection = None\<rparr>) ''heading-1'' = [] \<and>
   handleMarkdownAction untranslated
     (Some \<lparr>getModel = None, getSelection = Some (Range 1 1 1 3)\<rparr>) ''table'' = [] \<and>
   perform_all (handleMarkdownAction untranslated
     (Some \<lparr>getModel = None, getSelection = Some (Range 1 1 1 3)\<rparr>) ''table'')
     \<lparr>text_of = ''text'', undoStack = [], stepOpen = False\<rparr> = \<lparr>text_of = ''text'', undoStack = [], stepOpen = False\<rparr>"
proof -
  have a: "(None :: editor option) = None \<or>
      (\<exists>ed. (None :: editor option) = Some ed \<and> (getSelection ed = None \<or> getModel ed = None))"
    by simp
  have b: "Some \<lparr>getModel = Some ''text'', getSelection = None\<rparr> = None \<or>
      (\<exists>ed. Some \<lparr>getModel = Some ''text'', getSelection = None\<rparr> = Some ed \<and>
            (getSelection ed = None \<or> getModel ed = None))"
    by simp
  have c: "Some \<lparr>getModel = None, getSelection = Some (Range 1 1 1 3)\<rparr> = None \<or>
      (\<exists>ed. Some \<lparr>getModel = None, getSelection = Some (Range 1 1 1 3)\<rparr> = Some ed \<and>
            (getSelection ed = None \<or> getModel ed = None))"
    by simp
  show ?thesis
    using handleMarkdownAction_silent_without_editor [OF a]
      handleMarkdownAction_silent_without_editor [OF b]
      handleMarkdownAction_silent_without_editor [OF c]
    by blast
qed

section \<open>Composition and the parent state\<close>

lemma run_composing:
  "CompositionEnd \<notin> fst ` set evs \<Longrightarrow> (e, out) \<in> set (run True evs) \<Longrightarrow>
   e = ChangeModelContent \<Longrightarrow> out = []"
proof (induction evs)
  case Nil
  then show ?case by simp
next
  case (Cons ev evs)
  obtain e' v where ev: "ev = (e', v)"
    by (cases ev)
  with Cons.prems(1) have ne: "e' \<noteq> CompositionEnd" and rest: "CompositionEnd \<notin> fst ` set evs"
    by auto
  from ne have st: "fst (listener True e' v) = True"
    by (cases e') simp_all
  from Cons.prems(2) ev st
  have "(e, out) = (e', snd (listener True e' v)) \<or> (e, out) \<in> set (run True evs)"
    by simp
  then show ?case
  proof
    assume "(e, out) = (e', snd (listener True e' v))"
    with Cons.prems(3) show ?thesis
      by simp
  next
    assume "(e, out) \<in> set (run True evs)"
    with Cons.IH rest Cons.prems(3) show ?thesis
      by blast
  qed
qed

text \<open>
  C7.  After a composition-start event and as long as no composition-end event arrives, no
  change of the content sends the text to the parent; while the flag is set the listener
  of content changes sends nothing.  The composition-end listener clears the flag and
  sends the current text, and the blur listener sends the current text whatever the flag.
\<close>

theorem composing_suppresses_changes:
  "(CompositionEnd \<notin> fst ` set evs \<longrightarrow>
      (\<forall>(e, out) \<in> set (run (fst (listener c CompositionStart v0)) evs).
          e = ChangeModelContent \<longrightarrow> out = [])) \<and>
   listener True ChangeModelContent v = (True, []) \<and>
   listener c CompositionEnd v = (False, [v]) \<and>
   listener c BlurEditorText v = (c, [v])"
  using run_composing by auto

text \<open>Two content changes and a blur during a composition.\<close>

theorem composing_suppresses_changes_witness:
  "CompositionEnd \<notin> fst ` set [(ChangeModelContent, ''n''), (BlurEditorText, ''ni''),
                                 (ChangeModelContent, ''nih'')] \<and>
   run (fst (listener False CompositionStart []))
       [(ChangeModelContent, ''n''), (BlurEditorText, ''ni''), (ChangeModelContent, ''nih'')]
     = [(ChangeModelContent, []), (BlurEditorText, [''ni'']), (ChangeModelContent, [])] \<and>
   listener True ChangeModelContent ''nih'' = (True, []) \<and>
   listener True CompositionEnd ''nihao'' = (False, [''nihao'']) \<and>
   listener True BlurEditorText ''ni'' = (True, [''ni''])"
proof -
  have h: "CompositionEnd \<notin> fst ` set [(ChangeModelContent, ''n''), (BlurEditorText, ''ni''),
                                 (ChangeModelContent, ''nih'')]"
    by simp
  have r: "run (fst (listener False CompositionStart []))
       [(ChangeModelContent, ''n''), (BlurEditorText, ''ni''), (ChangeModelContent, ''nih'')]
     = [(ChangeModelContent, []), (BlurEditorText, [''ni'']), (ChangeModelContent, [])]"
    by simp
  from h r composing_suppresses_changes
    [of "[(ChangeModelContent, ''n''), (BlurEditorText, ''ni''), (ChangeModelContent, ''nih'')]"
        False "[]" "''nih''"]
    composing_suppresses_changes [of "[]" True "[]" "''nihao''"]
    composing_suppresses_changes [of "[]" True "[]" "''ni''"]
  show ?thesis
    by blast
qed

section \<open>Prefixing the lines of a selection\<close>

lemma split_acc_line:
  "newline \<notin> set l \<Longrightarrow> split_acc cur (l @ newline # r) = (cur @ l) # split_acc [] r"
  by (induction l arbitrary: cur) auto

lemma split_acc_last: "newline \<notin> set l \<Longrightarrow> split_acc cur l = [cur @ l]"
  by (induction l arbitrary: cur) auto

lemma split_join:
  "ls \<noteq> [] \<Longrightarrow> (\<And>l. l \<in> set ls \<Longrightarrow> newline \<notin> set l) \<Longrightarrow> split (join ls) = ls"
proof (induction ls rule: join.induct)
  case 1
  then show ?case by simp
next
  case (2 l)
  then show ?case
    by (simp add: split_def split_acc_last)
next
  case (3 l m ls)
  from "3.prems"(2) have l: "newline \<notin> set l"
    by simp
  from "3.IH" "3.prems"(2) have "split (join (m # ls)) = m # ls"
    by simp
  with l show ?case
    by (simp add: split_def split_acc_line)
qed

lemma split_acc_lines:
  "newline \<notin> set cur \<Longrightarrow> l \<in> set (split_acc cur s) \<Longrightarrow> newline \<notin> set l"
proof (induction s arbitrary: cur)
  case Nil
  then show ?case
    by simp
next
  case (Cons c s)
  show ?case
  proof (cases "c = newline")
    case True
    with Cons.prems(2) have "l = cur \<or> l \<in> set (split_acc [] s)"
      by simp
    then show ?thesis
    proof
      assume "l = cur"
      with Cons.prems(1) show ?thesis
        by simp
    next
      assume "l \<in> set (split_acc [] s)"
      then show ?thesis
        by (rule Cons.IH [rotated]) simp
    qed
  next
    case False
    with Cons.prems(2) have "l \<in> set (split_acc (cur @ [c]) s)"
      by simp
    moreover from False Cons.prems(1) have "newline \<notin> set (cur @ [c])"
      by auto
    ultimately show ?thesis
      by (rule Cons.IH [rotated])
  qed
qed

lemma split_lines: "l \<in> set (split s) \<Longrightarrow> newline \<notin> set l"
  using split_acc_lines [of "[]" l s] by (simp add: split_def)

lemma split_acc_nonempty: "split_acc cur s \<noteq> []"
  by (induction s arbitrary: cur) auto

lemma split_nonempty: "split s \<noteq> []"
  by (simp add: split_def split_acc_nonempty)

lemma digit_char_no_newline: "d < 10 \<Longrightarrow> newline \<noteq> digit_char d"
proof -
  assume "d < 10"
  then have "''0123456789'' ! d \<in> set ''0123456789''"
    by (intro nth_mem) simp
  moreover have "newline \<notin> set ''0123456789''"
    by (simp add: newline_def)
  ultimately show ?thesis
    unfolding digit_char_def by metis
qed

lemma show_nat_no_newline: "newline \<notin> set (show_nat n)"
proof (induction n rule: show_nat.induct)
  case (1 n)
  show ?case
  proof (cases "n < 10")
    case True
    then show ?thesis
      by (subst show_nat.simps) (simp add: digit_char_no_newline)
  next
    case False
    with "1.IH" have "newline \<notin> set (show_nat (n div 10))"
      by simp
    moreover have "newline \<noteq> digit_char (n mod 10)"
      by (rule digit_char_no_newline) simp
    ultimately show ?thesis
      using False by (subst show_nat.simps) simp
  qed
qed

lemma split_prefixed:
  assumes "newline \<notin> set p"
  shows "split (join (map (\<lambda>line. p @ line) (split s))) = map (\<lambda>line. p @ line) (split s)"
proof (rule split_join)
  show "map (\<lambda>line. p @ line) (split s) \<noteq> []"
    by (simp add: split_nonempty)
next
  fix l assume "l \<in> set (map (\<lambda>line. p @ line) (split s))"
  with assms show "newline \<notin> set l"
    by (auto dest: split_lines)
qed

lemma length_map_index: "length (map_index f xs) = length xs"
  by (simp add: map_index_def)

lemma nth_map_index: "i < length xs \<Longrightarrow> map_index f xs ! i = f (xs ! i) i"
  by (simp add: map_index_def)

lemma set_map_index: "y \<in> set (map_index f xs) \<Longrightarrow> \<exists>i < length xs. y = f (xs ! i) i"
  by (metis in_set_conv_nth length_map_index nth_map_index)

lemma split_numbered:
  "split (join (map_index (\<lambda>line index. show_nat (index + 1) @ ''. '' @ line) (split s)))
     = map_index (\<lambda>line index. show_nat (index + 1) @ ''. '' @ line) (split s)"
proof (rule split_join)
  show "map_index (\<lambda>line index. show_nat (index + 1) @ ''. '' @ line) (split s) \<noteq> []"
    using split_nonempty [of s] length_map_index
    by (metis length_0_conv)
next
  fix l assume "l \<in> set (map_index (\<lambda>line index. show_nat (index + 1) @ ''. '' @ line) (split s))"
  then obtain i where i: "i < length (split s)" "l = show_nat (i + 1) @ ''. '' @ split s ! i"
    by (blast dest: set_map_index)
  from i(1) have "split s ! i \<in> set (split s)"
    by (rule nth_mem)
  then have "newline \<notin> set (split s ! i)"
    by (rule split_lines)
  moreover have "newline \<notin> set ''. ''"
    by (simp add: newline_def)
  ultimately show "newline \<notin> set l"
    using i(2) show_nat_no_newline [of "i + 1"] by (simp only: set_append Un_iff simp_thms)
qed

text \<open>
  C6.  For a selection that is not empty, the lines of what the blockquote, unordered-list
  and task-list actions produce are the lines of the selection, in their order, each
  behind the prefix of the action; what the ordered-list action produces has as many
  lines as the selection, line \<open>i\<close> (from 0) being the number \<open>i + 1\<close>, a dot, a space
  and line \<open>i\<close> of the selection.  The last conjunct ties these texts to the dispatcher.
\<close>

theorem line_prefix_per_line:
  assumes "s \<noteq> []"
  shows "split (blockquote_text s) = map (\<lambda>line. ''> '' @ line) (split s) \<and>
         split (unordered_list_text s) = map (\<lambda>line. ''- '' @ line) (split s) \<and>
         split (task_list_text s) = map (\<lambda>line. ''- [ ] '' @ line) (split s) \<and>
         length (split (ordered_list_text s)) = length (split s) \<and>
         (\<forall>i < length (split s).
            split (ordered_list_text s) ! i = show_nat (i + 1) @ ''. '' @ split s ! i) \<and>
         (getModel ed = Some m \<and> getSelection ed = Some sel \<and> getValueInRange m sel = s \<longrightarrow>
            handleMarkdownAction tr (Some ed) ''blockquote'' =
              [ExecuteEdits (Some ''blockquote'') sel (blockquote_text s)] \<and>
            handleMarkdownAction tr (Some ed) ''unordered-list'' =
              [ExecuteEdits (Some ''unordered-list'') sel (unordered_list_text s)] \<and>
            handleMarkdownAction tr (Some ed) ''ordered-list'' =
              [ExecuteEdits (Some ''ordered-list'') sel (ordered_list_text s)] \<and>
            handleMarkdownAction tr (Some ed) ''task-list'' =
              [ExecuteEdits (Some ''task-list'') sel (task_list_text s)])"
proof -
  have a: "split (blockquote_text s) = map (\<lambda>line. ''> '' @ line) (split s)"
  proof -
    have "newline \<notin> set ''> ''"
      by (simp add: newline_def)
    then have "split (join (map (\<lambda>line. ''> '' @ line) (split s)))
        = map (\<lambda>line. ''> '' @ line) (split s)"
      by (rule split_prefixed)
    moreover from assms have "blockquote_text s = join (map (\<lambda>line. ''> '' @ line) (split s))"
      unfolding blockquote_text_def by (simp only: if_True simp_thms)
    ultimately show ?thesis
      by (simp only:)
  qed
  have b: "split (unordered_list_text s) = map (\<lambda>line. ''- '' @ line) (split s)"
  proof -
    have "newline \<notin> set ''- ''"
      by (simp add: newline_def)
    then have "split (join (map (\<lambda>line. ''- '' @ line) (split s)))
        = map (\<lambda>line. ''- '' @ line) (split s)"
      by (rule split_prefixed)
    moreover from assms have "unordered_list_text s = join (map (\<lambda>line. ''- '' @ line) (split s))"
      unfolding unordered_list_text_def by (simp only: if_True simp_thms)
    ultimately show ?thesis
      by (simp only:)
  qed
  have c: "split (task_list_text s) = map (\<lambda>line. ''- [ ] '' @ line) (split s)"
  proof -
    have "newline \<notin> set ''- [ ] ''"
      by (simp add: newline_def)
    then have "split (join (map (\<lambda>line. ''- [ ] '' @ line) (split s)))
        = map (\<lambda>line. ''- [ ] '' @ line) (split s)"
      by (rule split_prefixed)
    moreover from assms have "task_list_text s = join (map (\<lambda>line. ''- [ ] '' @ line) (split s))"
      unfolding task_list_text_def by (simp only: if_True simp_thms)
    ultimately show ?thesis
      by (simp only:)
  qed
  have d: "split (ordered_list_text s)
      = map_index (\<lambda>line index. show_nat (index + 1) @ ''. '' @ line) (split s)"
    using assms split_numbered [of s] by (simp add: ordered_list_text_def)
  from d have e: "length (split (ordered_list_text s)) = length (split s)"
    by (simp add: length_map_index)
  from d have f: "\<forall>i < length (split s).
      split (ordered_list_text s) ! i = show_nat (i + 1) @ ''. '' @ split s ! i"
    by (simp add: nth_map_index)
  have g: "getModel ed = Some m \<and> getSelection ed = Some sel \<and> getValueInRange m sel = s \<longrightarrow>
            handleMarkdownAction tr (Some ed) ''blockquote'' =
              [ExecuteEdits (Some ''blockquote'') sel (blockquote_text s)] \<and>
            handleMarkdownAction tr (Some ed) ''unordered-list'' =
              [ExecuteEdits (Some ''unordered-list'') sel (unordered_list_text s)] \<and>
            handleMarkdownAction tr (Some ed) ''ordered-list'' =
              [ExecuteEdits (Some ''ordered-list'') sel (ordered_list_text s)] \<and>
            handleMarkdownAction tr (Some ed) ''task-list'' =
              [ExecuteEdits (Some ''task-list'') sel (task_list_text s)]"
    by (auto simp: handleMarkdownAction_dispatch dispatch_def)
  from a b c e f g show ?thesis
    by blast
qed

text \<open>A selection of four lines, the third of them empty.\<close>

theorem line_prefix_per_line_witness:
  "[CHR ''a'', newline, CHR ''b'', CHR ''c'', newline, newline, CHR ''d''] \<noteq> [] \<and>
   split [CHR ''a'', newline, CHR ''b'', CHR ''c'', newline, newline, CHR ''d'']
     = [''a'', ''bc'', [], ''d''] \<and>
   split (blockquote_text [CHR ''a'', newline, CHR ''b'', CHR ''c'', newline, newline, CHR ''d''])
     = [''> a'', ''> bc'', ''> '', ''> d''] \<and>
   split (unordered_list_text [CHR ''a'', newline, CHR ''b'', CHR ''c'', newline, newline, CHR ''d''])
     = [''- a'', ''- bc'', ''- '', ''- d''] \<and>
   split (task_list_text [CHR ''a'', newline, CHR ''b'', CHR ''c'', newline, newline, CHR ''d''])
     = [''- [ ] a'', ''- [ ] bc'', ''- [ ] '', ''- [ ] d''] \<and>
   length (split (ordered_list_text
     [CHR ''a'', newline, CHR ''b'', CHR ''c'', newline, newline, CHR ''d''])) = 4 \<and>
   split (ordered_list_text
     [CHR ''a'', newline, CHR ''b'', CHR ''c'', newline, newline, CHR ''d'']) ! 3 = ''4. d'' \<and>
   handleMarkdownAction untranslated
     (Some \<lparr>getModel = Some [CHR ''a'', newline, CHR ''b'', CHR ''c'', newline, newline, CHR ''d''],
            getSelection = Some (Range 1 1 4 2)\<rparr>) ''ordered-list''
     = [ExecuteEdits (Some ''ordered-list'') (Range 1 1 4 2)
          (ordered_list_text [CHR ''a'', newline, CHR ''b'', CHR ''c'', newline, newline, CHR ''d''])]"
proof -
  let ?s = "[CHR ''a'', newline, CHR ''b'', CHR ''c'', newline, newline, CHR ''d'']"
  let ?ed = "\<lparr>getModel = Some ?s, getSelection = Some (Range 1 1 4 2)\<rparr>"
  have h: "?s \<noteq> []"
    by simp
  have l: "split ?s = [''a'', ''bc'', [], ''d'']"
    by (simp add: split_def newline_def)
  have n: "show_nat (3 + 1) = ''4''"
    by (simp add: show_nat.simps digit_char_def)
  have g: "getModel ?ed = Some ?s \<and> getSelection ?ed = Some (Range 1 1 4 2) \<and>
      getValueInRange ?s (Range 1 1 4 2) = ?s"
    by (simp add: getValueInRange_def Range_def newline_def lineTerminator_def ends_line_def)
  from line_prefix_per_line [OF h, where ed = ?ed and m = ?s and sel = "Range 1 1 4 2"
      and tr = untranslated] g
  have d: "handleMarkdownAction untranslated (Some ?ed) ''ordered-list''
      = [ExecuteEdits (Some ''ordered-list'') (Range 1 1 4 2) (ordered_list_text ?s)]"
    by blast
  from line_prefix_per_line [OF h, where ed = ?ed and m = ?s and sel = "Range 1 1 4 2"
      and tr = untranslated] l n h
  have "split (blockquote_text ?s) = [''> a'', ''> bc'', ''> '', ''> d''] \<and>
      split (unordered_list_text ?s) = [''- a'', ''- bc'', ''- '', ''- d''] \<and>
      split (task_list_text ?s) = [''- [ ] a'', ''- [ ] bc'', ''- [ ] '', ''- [ ] d''] \<and>
      length (split (ordered_list_text ?s)) = 4 \<and>
      split (ordered_list_text ?s) ! 3 = ''4. d''"
    by simp
  with h l d show ?thesis
    by blast
qed

section \<open>The heading actions\<close>

text \<open>
  The text the heading action computes from the start line: a line that begins with one to
  six hashes and a space loses them when the level is the number of hashes, and gets the
  hashes of the level in their place otherwise; what follows on the line is kept.
\<close>

lemma heading_text_marker:
  assumes "1 \<le> k" "k \<le> 6"
  shows "heading_text n (replicate k CHR ''#'' @ CHR '' '' # rest) sel =
           (if k = n then rest else replicate n CHR ''#'' @ CHR '' '' # rest)"
proof -
  from assms consider "k = 1" | "k = 2" | "k = 3" | "k = 4" | "k = 5" | "k = 6"
    by arith
  then show ?thesis
  proof cases
    case 1
    then show ?thesis
      by (auto simp: heading_text_def re_heading_def exec_def grp_def repeat_def
          lineTerminator_def Let_def)
  next
    case 2
    then show ?thesis
      by (auto simp: heading_text_def re_heading_def exec_def grp_def repeat_def
          lineTerminator_def Let_def numeral_2_eq_2)
  next
    case 3
    then show ?thesis
      by (auto simp: heading_text_def re_heading_def exec_def grp_def repeat_def
          lineTerminator_def Let_def numeral_3_eq_3)
  next
    case 4
    then show ?thesis
      by (auto simp: heading_text_def re_heading_def exec_def grp_def repeat_def
          lineTerminator_def Let_def eval_nat_numeral)
  next
    case 5
    then show ?thesis
      by (auto simp: heading_text_def re_heading_def exec_def grp_def repeat_def
          lineTerminator_def Let_def eval_nat_numeral)
  next
    case 6
    then show ?thesis
      by (auto simp: heading_text_def re_heading_def exec_def grp_def repeat_def
          lineTerminator_def Let_def eval_nat_numeral)
  qed
qed

text \<open>Without a selected text the edit replaces the whole start line by that text.\<close>

lemma handleHeadingAction_whole_line:
  "getLineContent model (startLineNumber sel) = Some line \<Longrightarrow>
   handleHeadingAction (Some ed) n sel model [] =
     [ExecuteEdits (Some (''heading-'' @ show_nat n))
        (Range (startLineNumber sel) 1 (startLineNumber sel) (length line + 1))
        (heading_text n line [])]"
  by (simp add: handleHeadingAction_def getLineLength_def Let_def)

text \<open>
  C3.  The code at two inputs on which it departs from the claim.  With the text
  \<open>## Hello world\<close> and the word \<open>Hello\<close> selected, the level-2 action computes
  \<open>Hello world\<close> from the line but writes it over the selection only: the document
  becomes \<open>## Hello world world\<close>, the marker is still there and the rest of the line
  is doubled.  The key binding of level 5 runs the dispatcher on \<open>heading-5\<close>, which no
  case of its \<open>switch\<close> names: on the line \<open># Title\<close> it requests no edit, where the
  binding of level 4 replaces the line by \<open>#### Title\<close>.
\<close>

theorem heading_action_failing_inputs:
  "handleMarkdownAction untranslated
     (Some \<lparr>getModel = Some ''## Hello world'', getSelection = Some (Range 1 4 1 9)\<rparr>)
     ''heading-2''
     = [ExecuteEdits (Some ''heading-2'') (Range 1 4 1 9) ''Hello world''] \<and>
   text_of (perform_all
     (handleMarkdownAction untranslated
        (Some \<lparr>getModel = Some ''## Hello world'', getSelection = Some (Range 1 4 1 9)\<rparr>)
        ''heading-2'')
     \<lparr>text_of = ''## Hello world'', undoStack = [], stepOpen = False\<rparr>) = ''## Hello world world'' \<and>
   heading_binding untranslated
     (Some \<lparr>getModel = Some ''# Title'', getSelection = Some (Range 1 1 1 1)\<rparr>) 5 = [] \<and>
   heading_binding untranslated
     (Some \<lparr>getModel = Some ''# Title'', getSelection = Some (Range 1 1 1 1)\<rparr>) 4
     = [ExecuteEdits (Some ''heading-4'') (Range 1 1 1 8) ''#### Title'']"
  by code_simp

end
